theory Spec2Isabelle
  imports Main
begin

section \<open>Values\<close>

text \<open>
  Python's \<open>int\<close> is unbounded: user ids, conversation ids, \<open>page\<close> and \<open>limit\<close> are
  \<open>int\<close>. A \<open>datetime\<close> is only compared and copied, so it is an instant on a linear
  scale. A UUID is an opaque identifier.
\<close>

type_synonym datetime = int

datatype uuid = UUID nat

section \<open>Exceptions\<close>

text \<open>
  \<open>HTTPException\<close> (fastapi) derives from \<open>Exception\<close>, as does every error the driver
  raises from \<open>session.execute\<close>. The detail of an \<open>HTTPException\<close> is either a literal
  or \<open>str(e)\<close> of a caught exception, kept symbolic as \<open>StrOf e\<close>.
\<close>

datatype exn = DriverError string | HTTPException int detail
and detail = Detail string | StrOf exn

section \<open>Request and response objects\<close>

text \<open>
  The schema classes; the field names carry a prefix because two records of one theory
  cannot share a selector: \<open>mc_\<close> MessageCreate, \<open>cr_\<close> ConversationResponse,
  \<open>pc_\<close> PaginatedConversationResponse, \<open>mr_\<close> MessageResponse,
  \<open>pm_\<close> PaginatedMessageResponse.
\<close>

record message_create =
  mc_conversation_id :: int
  mc_sender_id :: int
  mc_receiver_id :: int
  mc_content :: string

record conversation_response =
  cr_conversation_id :: int
  cr_participant_id :: int
  cr_last_updated :: "datetime option"

record paginated_conversation_response =
  pc_conversations :: "conversation_response list"
  pc_page :: int
  pc_limit :: int
  pc_has_more :: bool

record message_response =
  mr_message_id :: uuid
  mr_conversation_id :: int
  mr_sender_id :: int
  mr_content :: string
  mr_timestamp :: datetime

record paginated_message_response =
  pm_messages :: "message_response list"
  pm_page :: int
  pm_limit :: int
  pm_has_more :: bool

section \<open>The store\<close>

text \<open>
  The rows of the three tables the controllers address, with the columns their CQL
  statements name (\<open>cbu_\<close> conversations_by_user, \<open>cp_\<close> conversation_participants,
  \<open>m_\<close> messages_by_conversation).
\<close>

record conversations_by_user_row =
  cbu_user_id :: int
  cbu_conversation_id :: int
  cbu_participant_id :: int
  cbu_last_updated :: datetime

record conversation_participants_row =
  cp_conversation_id :: int
  cp_participant_id :: int

record messages_by_conversation_row =
  m_conversation_id :: int
  m_message_id :: uuid
  m_sender_id :: int
  m_content :: string
  m_timestamp :: datetime

text \<open>The statements the controllers pass to \<open>session.execute\<close>, with their parameters.\<close>

datatype stmt =
    SELECT_conversations_by_user int
  | SELECT_conversation_participants int
  | SELECT_messages_by_conversation int int
  | SELECT_messages_by_conversation_before int datetime int
  | INSERT_messages_by_conversation messages_by_conversation_row
  | INSERT_conversation_participants conversation_participants_row
  | INSERT_conversations_by_user conversations_by_user_row

text \<open>
  The session: the three tables, each a list in the order the store returns its rows,
  and \<open>fault\<close>, which says for each statement whether the driver raises on it (with
  the message of the error) instead of running it.
\<close>

record session =
  conversations_by_user :: "conversations_by_user_row list"
  conversation_participants :: "conversation_participants_row list"
  messages_by_conversation :: "messages_by_conversation_row list"
  fault :: "stmt \<Rightarrow> string option"

text \<open>
  Modelled from the spec: the table declarations (the primary keys) are not among the
  sources. The spec has one conversation-by-user row per (user, conversation) pair, one
  participants row per participant per conversation, and a message id unique per send;
  an INSERT is an upsert on that key.
\<close>

definition cbu_key :: "conversations_by_user_row \<Rightarrow> int \<times> int" where
  "cbu_key r = (cbu_user_id r, cbu_conversation_id r)"

definition cp_key :: "conversation_participants_row \<Rightarrow> int \<times> int" where
  "cp_key r = (cp_conversation_id r, cp_participant_id r)"

definition m_key :: "messages_by_conversation_row \<Rightarrow> int \<times> uuid" where
  "m_key r = (m_conversation_id r, m_message_id r)"

text \<open>
  Modelled from the spec: the store's INSERT. A row with the key of the new one is
  overwritten where it stands, otherwise the new row is added.
\<close>

definition upsert :: "('r \<Rightarrow> 'k) \<Rightarrow> 'r \<Rightarrow> 'r list \<Rightarrow> 'r list" where
  "upsert key r tbl =
     (if key r \<in> set (map key tbl)
      then map (\<lambda>r'. if key r' = key r then r else r') tbl
      else tbl @ [r])"

text \<open>
  Modelled from the spec: \<open>session.execute\<close> on each statement. A SELECT returns the
  rows that satisfy its WHERE clause in store order, the first \<open>n\<close> of them under
  \<open>LIMIT n\<close>, and leaves the session as it is; an INSERT upserts its row. Each returns
  the session after the call and either the raised error or the rows.
\<close>

definition execute_select_conversations_by_user ::
  "session \<Rightarrow> int \<Rightarrow> session \<times> (exn + conversations_by_user_row list)" where
  "execute_select_conversations_by_user s user_id =
     (case fault s (SELECT_conversations_by_user user_id) of
        Some msg \<Rightarrow> (s, Inl (DriverError msg))
      | None \<Rightarrow> (s, Inr (filter (\<lambda>r. cbu_user_id r = user_id) (conversations_by_user s))))"

definition execute_select_conversation_participants ::
  "session \<Rightarrow> int \<Rightarrow> session \<times> (exn + conversation_participants_row list)" where
  "execute_select_conversation_participants s conversation_id =
     (case fault s (SELECT_conversation_participants conversation_id) of
        Some msg \<Rightarrow> (s, Inl (DriverError msg))
      | None \<Rightarrow>
          (s, Inr (filter (\<lambda>r. cp_conversation_id r = conversation_id)
                     (conversation_participants s))))"

definition messages_of :: "session \<Rightarrow> int \<Rightarrow> messages_by_conversation_row list" where
  "messages_of s conversation_id =
     filter (\<lambda>r. m_conversation_id r = conversation_id) (messages_by_conversation s)"

definition execute_select_messages ::
  "session \<Rightarrow> int \<Rightarrow> int \<Rightarrow> session \<times> (exn + messages_by_conversation_row list)" where
  "execute_select_messages s conversation_id n =
     (case fault s (SELECT_messages_by_conversation conversation_id n) of
        Some msg \<Rightarrow> (s, Inl (DriverError msg))
      | None \<Rightarrow> (s, Inr (take (nat n) (messages_of s conversation_id))))"

definition execute_select_messages_before ::
  "session \<Rightarrow> int \<Rightarrow> datetime \<Rightarrow> int \<Rightarrow>
     session \<times> (exn + messages_by_conversation_row list)" where
  "execute_select_messages_before s conversation_id before_timestamp n =
     (case fault s (SELECT_messages_by_conversation_before conversation_id before_timestamp n) of
        Some msg \<Rightarrow> (s, Inl (DriverError msg))
      | None \<Rightarrow>
          (s, Inr (take (nat n)
                     (filter (\<lambda>r. m_timestamp r < before_timestamp)
                        (messages_of s conversation_id)))))"

definition execute_insert_message ::
  "session \<Rightarrow> messages_by_conversation_row \<Rightarrow> session \<times> (exn + unit)" where
  "execute_insert_message s r =
     (case fault s (INSERT_messages_by_conversation r) of
        Some msg \<Rightarrow> (s, Inl (DriverError msg))
      | None \<Rightarrow>
          (s\<lparr>messages_by_conversation := upsert m_key r (messages_by_conversation s)\<rparr>,
           Inr ()))"

definition execute_insert_participant ::
  "session \<Rightarrow> conversation_participants_row \<Rightarrow> session \<times> (exn + unit)" where
  "execute_insert_participant s r =
     (case fault s (INSERT_conversation_participants r) of
        Some msg \<Rightarrow> (s, Inl (DriverError msg))
      | None \<Rightarrow>
          (s\<lparr>conversation_participants := upsert cp_key r (conversation_participants s)\<rparr>,
           Inr ()))"

definition execute_insert_conversation_by_user ::
  "session \<Rightarrow> conversations_by_user_row \<Rightarrow> session \<times> (exn + unit)" where
  "execute_insert_conversation_by_user s r =
     (case fault s (INSERT_conversations_by_user r) of
        Some msg \<Rightarrow> (s, Inl (DriverError msg))
      | None \<Rightarrow>
          (s\<lparr>conversations_by_user := upsert cbu_key r (conversations_by_user s)\<rparr>,
           Inr ()))"

section \<open>Python's list slice\<close>

text \<open>
  \<open>xs[i:j]\<close>: a negative bound counts from the end, and each bound is then clamped to
  \<open>0 .. len(xs)\<close>; the slice is empty when the lower bound is not below the upper one.
\<close>

definition slice_index :: "nat \<Rightarrow> int \<Rightarrow> nat" where
  "slice_index n k = (if k < 0 then nat (max 0 (int n + k)) else min n (nat k))"

definition py_slice :: "'a list \<Rightarrow> int \<Rightarrow> int \<Rightarrow> 'a list" where
  "py_slice xs i j =
     (let lo = slice_index (length xs) i; hi = slice_index (length xs) j
      in take (hi - lo) (drop lo xs))"

section \<open>The controllers\<close>

text \<open>
  \<open>try: body  except Exception as e: raise HTTPException(status_code=500, detail=str(e))\<close>:
  every exception the body raises, an \<open>HTTPException\<close> of its own included, is replaced.
\<close>

definition except_500 :: "exn + 'a \<Rightarrow> exn + 'a" where
  "except_500 r = (case r of Inl e \<Rightarrow> Inl (HTTPException 500 (StrOf e)) | Inr v \<Rightarrow> Inr v)"

subsection \<open>ConversationController\<close>

definition conversation_of_row :: "conversations_by_user_row \<Rightarrow> conversation_response" where
  "conversation_of_row row =
     \<lparr>cr_conversation_id = cbu_conversation_id row,
      cr_participant_id = cbu_participant_id row,
      cr_last_updated = Some (cbu_last_updated row)\<rparr>"

definition get_user_conversations ::
  "session \<Rightarrow> int \<Rightarrow> int \<Rightarrow> int \<Rightarrow> session \<times> (exn + paginated_conversation_response)" where
  "get_user_conversations session user_id page limit =
     (let offset = (page - 1) * limit;
          (session', results) = execute_select_conversations_by_user session user_id
      in (session',
          except_500
            (case results of
               Inl e \<Rightarrow> Inl e
             | Inr rows \<Rightarrow>
                 (let conversations = py_slice rows offset (offset + limit)
                  in Inr \<lparr>pc_conversations = map conversation_of_row conversations,
                          pc_page = page,
                          pc_limit = limit,
                          pc_has_more = (int (length conversations) = limit)\<rparr>))))"

definition get_conversation ::
  "session \<Rightarrow> int \<Rightarrow> session \<times> (exn + conversation_response)" where
  "get_conversation session conversation_id =
     (let (session', result) = execute_select_conversation_participants session conversation_id
      in (session',
          except_500
            (case result of
               Inl e \<Rightarrow> Inl e
             | Inr rows \<Rightarrow>
                 (let participants = map cp_participant_id rows
                  in if participants = []
                     then Inl (HTTPException 404 (Detail ''Conversation not found''))
                     else Inr \<lparr>cr_conversation_id = conversation_id,
                               cr_participant_id = participants ! 0,
                               cr_last_updated = None\<rparr>))))"

subsection \<open>MessageController\<close>

text \<open>
  \<open>uuid4()\<close> and \<open>datetime.utcnow()\<close> are read from the environment: \<open>send_message\<close>
  takes the values they return. The writes are not inside a \<open>try\<close>: the first error
  leaves the function with the session as the earlier writes left it.
\<close>

fun insert_participants :: "session \<Rightarrow> int \<Rightarrow> int list \<Rightarrow> session \<times> (exn + unit)" where
  "insert_participants s conversation_id [] = (s, Inr ())"
| "insert_participants s conversation_id (user_id # rest) =
     (case execute_insert_participant s
             \<lparr>cp_conversation_id = conversation_id, cp_participant_id = user_id\<rparr> of
        (s', Inl e) \<Rightarrow> (s', Inl e)
      | (s', Inr _) \<Rightarrow> insert_participants s' conversation_id rest)"

fun insert_conversation_metadata ::
  "session \<Rightarrow> message_create \<Rightarrow> datetime \<Rightarrow> int list \<Rightarrow> session \<times> (exn + unit)" where
  "insert_conversation_metadata s message_data timestamp [] = (s, Inr ())"
| "insert_conversation_metadata s message_data timestamp (user_id # rest) =
     (case execute_insert_conversation_by_user s
             \<lparr>cbu_user_id = user_id,
              cbu_conversation_id = mc_conversation_id message_data,
              cbu_participant_id =
                (if user_id = mc_sender_id message_data
                 then mc_receiver_id message_data else mc_sender_id message_data),
              cbu_last_updated = timestamp\<rparr> of
        (s', Inl e) \<Rightarrow> (s', Inl e)
      | (s', Inr _) \<Rightarrow> insert_conversation_metadata s' message_data timestamp rest)"

definition send_message ::
  "session \<Rightarrow> uuid \<Rightarrow> datetime \<Rightarrow> message_create \<Rightarrow> session \<times> (exn + message_response)" where
  "send_message session message_id timestamp message_data =
     (let conversation_id = mc_conversation_id message_data
      in case execute_insert_message session
                \<lparr>m_conversation_id = conversation_id,
                 m_message_id = message_id,
                 m_sender_id = mc_sender_id message_data,
                 m_content = mc_content message_data,
                 m_timestamp = timestamp\<rparr> of
           (s1, Inl e) \<Rightarrow> (s1, Inl e)
         | (s1, Inr _) \<Rightarrow>
             (case insert_participants s1 conversation_id
                     [mc_sender_id message_data, mc_receiver_id message_data] of
                (s2, Inl e) \<Rightarrow> (s2, Inl e)
              | (s2, Inr _) \<Rightarrow>
                  (case insert_conversation_metadata s2 message_data timestamp
                          [mc_sender_id message_data, mc_receiver_id message_data] of
                     (s3, Inl e) \<Rightarrow> (s3, Inl e)
                   | (s3, Inr _) \<Rightarrow>
                       (s3, Inr \<lparr>mr_message_id = message_id,
                                 mr_conversation_id = conversation_id,
                                 mr_sender_id = mc_sender_id message_data,
                                 mr_content = mc_content message_data,
                                 mr_timestamp = timestamp\<rparr>))))"

definition message_of_row :: "int \<Rightarrow> messages_by_conversation_row \<Rightarrow> message_response" where
  "message_of_row conversation_id row =
     \<lparr>mr_message_id = m_message_id row,
      mr_conversation_id = conversation_id,
      mr_sender_id = m_sender_id row,
      mr_content = m_content row,
      mr_timestamp = m_timestamp row\<rparr>"

definition get_conversation_messages ::
  "session \<Rightarrow> int \<Rightarrow> int \<Rightarrow> int \<Rightarrow> session \<times> (exn + paginated_message_response)" where
  "get_conversation_messages session conversation_id page limit =
     (let offset = (page - 1) * limit;
          (session', results) = execute_select_messages session conversation_id (offset + limit)
      in (session',
          except_500
            (case results of
               Inl e \<Rightarrow> Inl e
             | Inr rows \<Rightarrow>
                 (let messages = py_slice rows offset (offset + limit)
                  in Inr \<lparr>pm_messages = map (message_of_row conversation_id) messages,
                          pm_page = page,
                          pm_limit = limit,
                          pm_has_more = (int (length messages) = limit)\<rparr>))))"

definition get_messages_before_timestamp ::
  "session \<Rightarrow> int \<Rightarrow> datetime \<Rightarrow> int \<Rightarrow> int \<Rightarrow>
     session \<times> (exn + paginated_message_response)" where
  "get_messages_before_timestamp session conversation_id before_timestamp page limit =
     (let offset = (page - 1) * limit;
          (session', results) =
            execute_select_messages_before session conversation_id before_timestamp
              (offset + limit)
      in (session',
          except_500
            (case results of
               Inl e \<Rightarrow> Inl e
             | Inr rows \<Rightarrow>
                 (let messages = py_slice rows offset (offset + limit)
                  in Inr \<lparr>pm_messages = map (message_of_row conversation_id) messages,
                          pm_page = page,
                          pm_limit = limit,
                          pm_has_more = (int (length messages) = limit)\<rparr>))))"

section \<open>Example sessions\<close>

definition no_fault :: "stmt \<Rightarrow> string option" where
  "no_fault st = None"

definition empty_session :: session where
  "empty_session =
     \<lparr>conversations_by_user = [], conversation_participants = [],
      messages_by_conversation = [], fault = no_fault\<rparr>"

definition example_session :: session where
  "example_session =
     \<lparr>conversations_by_user =
        [\<lparr>cbu_user_id = 1, cbu_conversation_id = 10, cbu_participant_id = 2,
          cbu_last_updated = 100\<rparr>,
         \<lparr>cbu_user_id = 2, cbu_conversation_id = 10, cbu_participant_id = 1,
          cbu_last_updated = 100\<rparr>,
         \<lparr>cbu_user_id = 1, cbu_conversation_id = 11, cbu_participant_id = 3,
          cbu_last_updated = 200\<rparr>,
         \<lparr>cbu_user_id = 1, cbu_conversation_id = 12, cbu_participant_id = 4,
          cbu_last_updated = 300\<rparr>],
      conversation_participants =
        [\<lparr>cp_conversation_id = 10, cp_participant_id = 2\<rparr>,
         \<lparr>cp_conversation_id = 10, cp_participant_id = 1\<rparr>],
      messages_by_conversation =
        [\<lparr>m_conversation_id = 10, m_message_id = UUID 1, m_sender_id = 1,
          m_content = ''hi'', m_timestamp = 100\<rparr>,
         \<lparr>m_conversation_id = 10, m_message_id = UUID 2, m_sender_id = 2,
          m_content = ''yo'', m_timestamp = 150\<rparr>,
         \<lparr>m_conversation_id = 10, m_message_id = UUID 3, m_sender_id = 1,
          m_content = ''ok'', m_timestamp = 200\<rparr>],
      fault = no_fault\<rparr>"

text \<open>A session whose driver raises on every SELECT of the participants table.\<close>

definition participants_down :: "stmt \<Rightarrow> string option" where
  "participants_down st =
     (case st of SELECT_conversation_participants c \<Rightarrow> Some ''unavailable'' | _ \<Rightarrow> None)"

text \<open>The session that one message from user 1 to user 2 leaves behind on the empty store.\<close>

definition sent_session :: session where
  "sent_session =
     \<lparr>conversations_by_user =
        [\<lparr>cbu_user_id = 1, cbu_conversation_id = 1, cbu_participant_id = 2,
          cbu_last_updated = 500\<rparr>,
         \<lparr>cbu_user_id = 2, cbu_conversation_id = 1, cbu_participant_id = 1,
          cbu_last_updated = 500\<rparr>],
      conversation_participants =
        [\<lparr>cp_conversation_id = 1, cp_participant_id = 1\<rparr>,
         \<lparr>cp_conversation_id = 1, cp_participant_id = 2\<rparr>],
      messages_by_conversation =
        [\<lparr>m_conversation_id = 1, m_message_id = UUID 7, m_sender_id = 1,
          m_content = ''hi'', m_timestamp = 500\<rparr>],
      fault = no_fault\<rparr>"

section \<open>The unbounded scan, for comparison\<close>

text \<open>
  Following the spec's words (4.1, applied to the messages of a conversation): read all
  rows of the conversation, the store not being asked to limit, convert to a sequence,
  take the slice \<open>[(page-1)*limit, (page-1)*limit+limit)\<close> in memory, and return the page
  with \<open>has_more = (slice length == limit)\<close>. This is not a function of the source; the
  windowed read of \<open>get_conversation_messages\<close> is compared with it.
\<close>

definition unbounded_scan_page :: "session \<Rightarrow> int \<Rightarrow> int \<Rightarrow> int \<Rightarrow> paginated_message_response" where
  "unbounded_scan_page s conversation_id page limit =
     (let rows = messages_of s conversation_id;
          messages = py_slice rows ((page - 1) * limit) ((page - 1) * limit + limit)
      in \<lparr>pm_messages = map (message_of_row conversation_id) messages,
          pm_page = page,
          pm_limit = limit,
          pm_has_more = (int (length messages) = limit)\<rparr>)"

section \<open>Slices\<close>

lemma slice_index_nonneg: "0 \<le> k \<Longrightarrow> slice_index n k = min n (nat k)"
  by (simp add: slice_index_def)

lemma py_slice_window:
  assumes "0 \<le> i" and "0 \<le> l"
  shows "py_slice xs i (i + l) = take (nat l) (drop (nat i) xs)"
proof (cases "nat i \<le> length xs")
  case True
  have hi: "slice_index (length xs) (i + l) = min (length xs) (nat i + nat l)"
    using assms by (simp add: slice_index_def nat_add_distrib)
  have lo: "slice_index (length xs) i = nat i"
    using assms True by (simp add: slice_index_def)
  have "take (min (length xs) (nat i + nat l) - nat i) (drop (nat i) xs)
        = take (nat l) (drop (nat i) xs)"
    using True by (cases "nat i + nat l \<le> length xs") (simp_all add: min_def)
  then show ?thesis
    by (simp add: py_slice_def Let_def hi lo)
next
  case False
  then show ?thesis
    using assms by (simp add: py_slice_def Let_def slice_index_def)
qed

lemma set_py_slice: "set (py_slice xs i j) \<subseteq> set xs"
proof -
  have "set (py_slice xs i j) \<subseteq> set (drop (slice_index (length xs) i) xs)"
    by (simp add: py_slice_def Let_def set_take_subset)
  also have "\<dots> \<subseteq> set xs"
    by (rule set_drop_subset)
  finally show ?thesis .
qed

lemma offset_nonneg: "0 < page \<Longrightarrow> 0 < limit \<Longrightarrow> 0 \<le> (page - 1) * (limit::int)"
  by simp

lemma py_slice_of_prefix:
  assumes "0 \<le> i" and "0 \<le> l"
  shows "py_slice (take (nat (i + l)) xs) i (i + l) = py_slice xs i (i + l)"
proof -
  have "take (nat l) (drop (nat i) (take (nat (i + l)) xs)) = take (nat l) (drop (nat i) xs)"
    using assms by (simp add: drop_take nat_add_distrib)
  then show ?thesis
    using assms by (simp add: py_slice_window)
qed

section \<open>Upserts and the writes of send_message\<close>

lemma upsert_mem: "r \<in> set (upsert key r tbl)"
  by (auto simp: upsert_def)

lemma upsert_keeps_other:
  "r' \<in> set tbl \<Longrightarrow> key r' \<noteq> key r \<Longrightarrow> r' \<in> set (upsert key r tbl)"
  by (auto simp: upsert_def)

lemma map_key_upsert:
  "map key (upsert key r tbl) = (if key r \<in> set (map key tbl) then map key tbl else map key tbl @ [key r])"
  by (auto simp: upsert_def)

lemma distinct_upsert:
  "distinct (map key tbl) \<Longrightarrow> distinct (map key (upsert key r tbl))"
  by (simp add: map_key_upsert)

lemma rows_with_keys:
  assumes d: "distinct (map key tbl)" and a: "a \<in> set tbl" and b: "b \<in> set tbl"
  shows "set (filter (\<lambda>r. key r = key a \<or> key r = key b) tbl) = {a, b}"
proof -
  have inj: "inj_on key (set tbl)"
    using d by (simp add: distinct_map)
  show ?thesis
    using a b inj by (auto dest: inj_onD)
qed

lemma execute_insert_message_Inr:
  "execute_insert_message s r = (s', Inr u) \<Longrightarrow>
     s' = s\<lparr>messages_by_conversation := upsert m_key r (messages_by_conversation s)\<rparr>"
  by (auto simp: execute_insert_message_def split: option.splits)

lemma execute_insert_participant_Inr:
  "execute_insert_participant s r = (s', Inr u) \<Longrightarrow>
     s' = s\<lparr>conversation_participants := upsert cp_key r (conversation_participants s)\<rparr>"
  by (auto simp: execute_insert_participant_def split: option.splits)

lemma execute_insert_conversation_by_user_Inr:
  "execute_insert_conversation_by_user s r = (s', Inr u) \<Longrightarrow>
     s' = s\<lparr>conversations_by_user := upsert cbu_key r (conversations_by_user s)\<rparr>"
  by (auto simp: execute_insert_conversation_by_user_def split: option.splits)

lemma insert_participants_frame:
  "insert_participants s c us = (s', res) \<Longrightarrow>
     conversations_by_user s' = conversations_by_user s"
proof (induction us arbitrary: s)
  case Nil
  then show ?case by simp
next
  case (Cons u us)
  show ?case
  proof (cases "execute_insert_participant s \<lparr>cp_conversation_id = c, cp_participant_id = u\<rparr>")
    case (Pair s1 r1)
    show ?thesis
    proof (cases r1)
      case (Inl e)
      with Pair Cons.prems show ?thesis
        by (auto simp: execute_insert_participant_def split: option.splits)
    next
      case (Inr v)
      with Pair Cons.prems have "insert_participants s1 c us = (s', res)"
        by simp
      then have "conversations_by_user s' = conversations_by_user s1"
        by (rule Cons.IH)
      moreover have "conversations_by_user s1 = conversations_by_user s"
        using Pair Inr by (auto dest: execute_insert_participant_Inr)
      ultimately show ?thesis by simp
    qed
  qed
qed

lemma insert_conversation_metadata_step:
  assumes "insert_conversation_metadata s d ts (a # rest) = (s', Inr u)"
  shows "insert_conversation_metadata
           (s\<lparr>conversations_by_user :=
                upsert cbu_key
                  \<lparr>cbu_user_id = a, cbu_conversation_id = mc_conversation_id d,
                   cbu_participant_id =
                     (if a = mc_sender_id d then mc_receiver_id d else mc_sender_id d),
                   cbu_last_updated = ts\<rparr>
                  (conversations_by_user s)\<rparr>) d ts rest = (s', Inr u)"
proof -
  let ?row = "\<lparr>cbu_user_id = a, cbu_conversation_id = mc_conversation_id d,
               cbu_participant_id =
                 (if a = mc_sender_id d then mc_receiver_id d else mc_sender_id d),
               cbu_last_updated = ts\<rparr>"
  obtain s1 r1 where e: "execute_insert_conversation_by_user s ?row = (s1, r1)"
    by (cases "execute_insert_conversation_by_user s ?row")
  show ?thesis
  proof (cases r1)
    case (Inl x)
    with e assms show ?thesis by simp
  next
    case (Inr v)
    with e have "s1 = s\<lparr>conversations_by_user := upsert cbu_key ?row (conversations_by_user s)\<rparr>"
      by (simp add: execute_insert_conversation_by_user_Inr)
    moreover from e Inr assms have "insert_conversation_metadata s1 d ts rest = (s', Inr u)"
      by simp
    ultimately show ?thesis by simp
  qed
qed

lemma insert_conversation_metadata_pair:
  assumes "insert_conversation_metadata s d ts [a, b] = (s', Inr u)"
  shows "conversations_by_user s' =
           upsert cbu_key
             \<lparr>cbu_user_id = b, cbu_conversation_id = mc_conversation_id d,
              cbu_participant_id = (if b = mc_sender_id d then mc_receiver_id d else mc_sender_id d),
              cbu_last_updated = ts\<rparr>
             (upsert cbu_key
                \<lparr>cbu_user_id = a, cbu_conversation_id = mc_conversation_id d,
                 cbu_participant_id = (if a = mc_sender_id d then mc_receiver_id d else mc_sender_id d),
                 cbu_last_updated = ts\<rparr>
                (conversations_by_user s))"
proof -
  note s1 = insert_conversation_metadata_step [OF assms]
  note s2 = insert_conversation_metadata_step [OF s1]
  from s2 show ?thesis
    by (auto split del: if_split cong: if_cong)
qed

lemma send_message_Inr_steps:
  assumes "send_message s mid ts d = (s', Inr resp)"
  shows "\<exists>s1 s2.
           execute_insert_message s
             \<lparr>m_conversation_id = mc_conversation_id d, m_message_id = mid,
              m_sender_id = mc_sender_id d, m_content = mc_content d, m_timestamp = ts\<rparr>
             = (s1, Inr ())
         \<and> insert_participants s1 (mc_conversation_id d) [mc_sender_id d, mc_receiver_id d]
             = (s2, Inr ())
         \<and> insert_conversation_metadata s2 d ts [mc_sender_id d, mc_receiver_id d]
             = (s', Inr ())
         \<and> resp = \<lparr>mr_message_id = mid, mr_conversation_id = mc_conversation_id d,
                    mr_sender_id = mc_sender_id d, mr_content = mc_content d,
                    mr_timestamp = ts\<rparr>"
proof -
  let ?row = "\<lparr>m_conversation_id = mc_conversation_id d, m_message_id = mid,
               m_sender_id = mc_sender_id d, m_content = mc_content d, m_timestamp = ts\<rparr>"
  let ?us = "[mc_sender_id d, mc_receiver_id d]"
  obtain s1 r1 where e1: "execute_insert_message s ?row = (s1, r1)"
    by (cases "execute_insert_message s ?row")
  obtain s2 r2 where e2: "insert_participants s1 (mc_conversation_id d) ?us = (s2, r2)"
    by (cases "insert_participants s1 (mc_conversation_id d) ?us")
  obtain s3 r3 where e3: "insert_conversation_metadata s2 d ts ?us = (s3, r3)"
    by (cases "insert_conversation_metadata s2 d ts ?us")
  have unfolded: "send_message s mid ts d =
    (case r1 of Inl e \<Rightarrow> (s1, Inl e)
     | Inr _ \<Rightarrow> (case r2 of Inl e \<Rightarrow> (s2, Inl e)
        | Inr _ \<Rightarrow> (case r3 of Inl e \<Rightarrow> (s3, Inl e)
           | Inr _ \<Rightarrow> (s3, Inr \<lparr>mr_message_id = mid, mr_conversation_id = mc_conversation_id d,
                    mr_sender_id = mc_sender_id d, mr_content = mc_content d,
                    mr_timestamp = ts\<rparr>))))"
    unfolding send_message_def Let_def e1 e2 e3
    by (simp only: prod.case e1 e2 e3 split: sum.splits)
  from assms unfolded have "r1 = Inr () \<and> r2 = Inr () \<and> r3 = Inr () \<and> s3 = s' \<and>
      resp = \<lparr>mr_message_id = mid, mr_conversation_id = mc_conversation_id d,
                    mr_sender_id = mc_sender_id d, mr_content = mc_content d,
                    mr_timestamp = ts\<rparr>"
    by (cases r1; cases r2; cases r3) auto
  with e1 e2 e3 show ?thesis by blast
qed

section \<open>The read paths\<close>

lemma execute_select_conversations_by_user_fst:
  "fst (execute_select_conversations_by_user s u) = s"
  by (simp add: execute_select_conversations_by_user_def split: option.splits)

lemma execute_select_conversation_participants_fst:
  "fst (execute_select_conversation_participants s c) = s"
  by (simp add: execute_select_conversation_participants_def split: option.splits)

lemma execute_select_messages_fst:
  "fst (execute_select_messages s c n) = s"
  by (simp add: execute_select_messages_def split: option.splits)

lemma execute_select_messages_before_fst:
  "fst (execute_select_messages_before s c b n) = s"
  by (simp add: execute_select_messages_before_def split: option.splits)

lemma get_user_conversations_fst:
  "fst (get_user_conversations s u page limit) = fst (execute_select_conversations_by_user s u)"
  by (simp add: get_user_conversations_def Let_def split: prod.splits)

lemma get_conversation_fst:
  "fst (get_conversation s c) = fst (execute_select_conversation_participants s c)"
  by (simp add: get_conversation_def Let_def split: prod.splits)

lemma get_conversation_messages_fst:
  "fst (get_conversation_messages s c page limit) =
     fst (execute_select_messages s c ((page - 1) * limit + limit))"
  by (simp add: get_conversation_messages_def Let_def split: prod.splits)

lemma get_messages_before_timestamp_fst:
  "fst (get_messages_before_timestamp s c b page limit) =
     fst (execute_select_messages_before s c b ((page - 1) * limit + limit))"
  by (simp add: get_messages_before_timestamp_def Let_def split: prod.splits)

lemma get_user_conversations_Inr:
  assumes "execute_select_conversations_by_user s u = (s', Inr rows)"
  shows "get_user_conversations s u page limit =
           (s', Inr \<lparr>pc_conversations =
                       map conversation_of_row
                         (py_slice rows ((page - 1) * limit) ((page - 1) * limit + limit)),
                     pc_page = page, pc_limit = limit,
                     pc_has_more =
                       (int (length (py_slice rows ((page - 1) * limit)
                                       ((page - 1) * limit + limit))) = limit)\<rparr>)"
  using assms by (simp add: get_user_conversations_def except_500_def Let_def)

lemma get_user_conversations_Inl:
  assumes "execute_select_conversations_by_user s u = (s', Inl e)"
  shows "get_user_conversations s u page limit = (s', Inl (HTTPException 500 (StrOf e)))"
  using assms by (simp add: get_user_conversations_def except_500_def Let_def)

lemma get_conversation_messages_Inr:
  assumes "execute_select_messages s c ((page - 1) * limit + limit) = (s', Inr rows)"
  shows "get_conversation_messages s c page limit =
           (s', Inr \<lparr>pm_messages =
                       map (message_of_row c)
                         (py_slice rows ((page - 1) * limit) ((page - 1) * limit + limit)),
                     pm_page = page, pm_limit = limit,
                     pm_has_more =
                       (int (length (py_slice rows ((page - 1) * limit)
                                       ((page - 1) * limit + limit))) = limit)\<rparr>)"
  using assms by (simp add: get_conversation_messages_def except_500_def Let_def)

lemma get_conversation_messages_Inl:
  assumes "execute_select_messages s c ((page - 1) * limit + limit) = (s', Inl e)"
  shows "get_conversation_messages s c page limit = (s', Inl (HTTPException 500 (StrOf e)))"
  using assms by (simp add: get_conversation_messages_def except_500_def Let_def)

lemma get_messages_before_timestamp_Inr:
  assumes "execute_select_messages_before s c b ((page - 1) * limit + limit) = (s', Inr rows)"
  shows "get_messages_before_timestamp s c b page limit =
           (s', Inr \<lparr>pm_messages =
                       map (message_of_row c)
                         (py_slice rows ((page - 1) * limit) ((page - 1) * limit + limit)),
                     pm_page = page, pm_limit = limit,
                     pm_has_more =
                       (int (length (py_slice rows ((page - 1) * limit)
                                       ((page - 1) * limit + limit))) = limit)\<rparr>)"
  using assms by (simp add: get_messages_before_timestamp_def except_500_def Let_def)

lemma get_messages_before_timestamp_Inl:
  assumes "execute_select_messages_before s c b ((page - 1) * limit + limit) = (s', Inl e)"
  shows "get_messages_before_timestamp s c b page limit =
           (s', Inl (HTTPException 500 (StrOf e)))"
  using assms by (simp add: get_messages_before_timestamp_def except_500_def Let_def)

lemma get_conversation_Inr:
  assumes "execute_select_conversation_participants s c = (s', Inr rows)"
  shows "get_conversation s c =
           (s', if rows = []
                then Inl (HTTPException 500
                            (StrOf (HTTPException 404 (Detail ''Conversation not found''))))
                else Inr \<lparr>cr_conversation_id = c,
                          cr_participant_id = cp_participant_id (hd rows),
                          cr_last_updated = None\<rparr>)"
  using assms
  by (cases rows) (simp_all add: get_conversation_def except_500_def Let_def)

lemma example_participants_10:
  "execute_select_conversation_participants example_session 10 =
     (example_session,
      Inr [\<lparr>cp_conversation_id = 10, cp_participant_id = 2\<rparr>,
           \<lparr>cp_conversation_id = 10, cp_participant_id = 1\<rparr>])"
  by (simp add: execute_select_conversation_participants_def example_session_def no_fault_def)

lemma empty_participants:
  "execute_select_conversation_participants empty_session c = (empty_session, Inr [])"
  by (simp add: execute_select_conversation_participants_def empty_session_def no_fault_def)


text \<open>
  A driver error on the participants lookup ends in the same 500 as the lookup that
  finds no row: only the detail differs.
\<close>

lemma get_conversation_driver_error:
  "snd (get_conversation (empty_session\<lparr>fault := participants_down\<rparr>) 7) =
     Inl (HTTPException 500 (StrOf (DriverError ''unavailable'')))"
  by (simp add: get_conversation_def execute_select_conversation_participants_def
      participants_down_def except_500_def Let_def)

lemma example_conversations_1:
  "execute_select_conversations_by_user example_session 1 =
     (example_session,
      Inr [\<lparr>cbu_user_id = 1, cbu_conversation_id = 10, cbu_participant_id = 2,
            cbu_last_updated = 100\<rparr>,
           \<lparr>cbu_user_id = 1, cbu_conversation_id = 11, cbu_participant_id = 3,
            cbu_last_updated = 200\<rparr>,
           \<lparr>cbu_user_id = 1, cbu_conversation_id = 12, cbu_participant_id = 4,
            cbu_last_updated = 300\<rparr>])"
  by (simp add: execute_select_conversations_by_user_def example_session_def no_fault_def)

lemma example_messages_of_10:
  "messages_of example_session 10 =
     [\<lparr>m_conversation_id = 10, m_message_id = UUID 1, m_sender_id = 1,
       m_content = ''hi'', m_timestamp = 100\<rparr>,
      \<lparr>m_conversation_id = 10, m_message_id = UUID 2, m_sender_id = 2,
       m_content = ''yo'', m_timestamp = 150\<rparr>,
      \<lparr>m_conversation_id = 10, m_message_id = UUID 3, m_sender_id = 1,
       m_content = ''ok'', m_timestamp = 200\<rparr>]"
  by (simp add: messages_of_def example_session_def)

lemma example_fault: "fault example_session st = None"
  by (simp add: example_session_def no_fault_def)

lemma example_messages_10:
  "execute_select_messages example_session 10 n =
     (example_session, Inr (take (nat n) (messages_of example_session 10)))"
  by (simp add: execute_select_messages_def example_fault)

lemma example_messages_before_10:
  "execute_select_messages_before example_session 10 b n =
     (example_session,
      Inr (take (nat n) (filter (\<lambda>r. m_timestamp r < b) (messages_of example_session 10))))"
  by (simp add: execute_select_messages_before_def example_fault)

lemma py_slice_page:
  assumes "0 < page" and "0 < limit"
  shows "py_slice xs ((page - 1) * limit) ((page - 1) * limit + limit) =
           take (nat limit) (drop (nat ((page - 1) * limit)) xs)"
  using assms by (intro py_slice_window) simp_all

lemma paginated_conversations_window:
  assumes "0 < page" and "0 < limit"
    and "execute_select_conversations_by_user s u = (s', Inr rows)"
  shows "\<exists>resp. snd (get_user_conversations s u page limit) = Inr resp
           \<and> pc_conversations resp =
               map conversation_of_row (take (nat limit) (drop (nat ((page - 1) * limit)) rows))
           \<and> int (length (pc_conversations resp)) \<le> limit"
  using assms
  by (simp add: get_user_conversations_Inr py_slice_page)

lemma paginated_messages_window:
  assumes "0 < page" and "0 < limit"
    and "execute_select_messages s c ((page - 1) * limit + limit) = (s', Inr rows)"
  shows "\<exists>resp. snd (get_conversation_messages s c page limit) = Inr resp
           \<and> pm_messages resp =
               map (message_of_row c) (take (nat limit) (drop (nat ((page - 1) * limit)) rows))
           \<and> int (length (pm_messages resp)) \<le> limit"
  using assms
  by (simp add: get_conversation_messages_Inr py_slice_page)

lemma paginated_messages_before_window:
  assumes "0 < page" and "0 < limit"
    and "execute_select_messages_before s c b ((page - 1) * limit + limit) = (s', Inr rows)"
  shows "\<exists>resp. snd (get_messages_before_timestamp s c b page limit) = Inr resp
           \<and> pm_messages resp =
               map (message_of_row c) (take (nat limit) (drop (nat ((page - 1) * limit)) rows))
           \<and> int (length (pm_messages resp)) \<le> limit"
  using assms
  by (simp add: get_messages_before_timestamp_Inr py_slice_page)

lemma snd_get_user_conversations_Inr:
  assumes "snd (get_user_conversations s u page limit) = Inr resp"
  shows "\<exists>s' rows. execute_select_conversations_by_user s u = (s', Inr rows)"
proof (cases "execute_select_conversations_by_user s u")
  case (Pair s' r)
  show ?thesis
  proof (cases r)
    case (Inl e)
    with Pair assms show ?thesis by (simp add: get_user_conversations_Inl)
  next
    case (Inr rows)
    with Pair show ?thesis by simp
  qed
qed

lemma snd_get_conversation_messages_Inr:
  assumes "snd (get_conversation_messages s c page limit) = Inr resp"
  shows "\<exists>s' rows. execute_select_messages s c ((page - 1) * limit + limit) = (s', Inr rows)"
proof (cases "execute_select_messages s c ((page - 1) * limit + limit)")
  case (Pair s' r)
  show ?thesis
  proof (cases r)
    case (Inl e)
    with Pair assms show ?thesis by (simp add: get_conversation_messages_Inl)
  next
    case (Inr rows)
    with Pair show ?thesis by simp
  qed
qed

lemma snd_get_messages_before_timestamp_Inr:
  assumes "snd (get_messages_before_timestamp s c b page limit) = Inr resp"
  shows "\<exists>s' rows. execute_select_messages_before s c b ((page - 1) * limit + limit)
                      = (s', Inr rows)"
proof (cases "execute_select_messages_before s c b ((page - 1) * limit + limit)")
  case (Pair s' r)
  show ?thesis
  proof (cases r)
    case (Inl e)
    with Pair assms show ?thesis by (simp add: get_messages_before_timestamp_Inl)
  next
    case (Inr rows)
    with Pair show ?thesis by simp
  qed
qed

lemma conversations_has_more:
  assumes "snd (get_user_conversations s u page limit) = Inr resp"
  shows "pc_has_more resp = (int (length (pc_conversations resp)) = limit)"
proof -
  obtain s' rows where "execute_select_conversations_by_user s u = (s', Inr rows)"
    using snd_get_user_conversations_Inr [OF assms] by blast
  with assms show ?thesis
    by (auto simp: get_user_conversations_Inr)
qed

lemma messages_has_more:
  assumes "snd (get_conversation_messages s c page limit) = Inr resp"
  shows "pm_has_more resp = (int (length (pm_messages resp)) = limit)"
proof -
  obtain s' rows where "execute_select_messages s c ((page - 1) * limit + limit) = (s', Inr rows)"
    using snd_get_conversation_messages_Inr [OF assms] by blast
  with assms show ?thesis
    by (auto simp: get_conversation_messages_Inr)
qed

lemma messages_before_has_more:
  assumes "snd (get_messages_before_timestamp s c b page limit) = Inr resp"
  shows "pm_has_more resp = (int (length (pm_messages resp)) = limit)"
proof -
  obtain s' rows where
    "execute_select_messages_before s c b ((page - 1) * limit + limit) = (s', Inr rows)"
    using snd_get_messages_before_timestamp_Inr [OF assms] by blast
  with assms show ?thesis
    by (auto simp: get_messages_before_timestamp_Inr)
qed

lemma messages_before_rows:
  assumes "execute_select_messages_before s c b n = (s', Inr rows)" and "r \<in> set rows"
  shows "m_timestamp r < b"
proof -
  have "rows = take (nat n) (filter (\<lambda>r. m_timestamp r < b) (messages_of s c))"
    using assms(1) by (auto simp: execute_select_messages_before_def split: option.splits)
  with assms(2) have "r \<in> set (filter (\<lambda>r. m_timestamp r < b) (messages_of s c))"
    by (auto dest: in_set_takeD)
  then show ?thesis by simp
qed

section \<open>Example runs of send_message\<close>

lemma send_message_example:
  "send_message empty_session (UUID 7) 500
     \<lparr>mc_conversation_id = 1, mc_sender_id = 1, mc_receiver_id = 2, mc_content = ''hi''\<rparr>
   = (sent_session,
      Inr \<lparr>mr_message_id = UUID 7, mr_conversation_id = 1, mr_sender_id = 1,
           mr_content = ''hi'', mr_timestamp = 500\<rparr>)"
  by (simp add: send_message_def execute_insert_message_def execute_insert_participant_def
      execute_insert_conversation_by_user_def empty_session_def sent_session_def no_fault_def
      upsert_def cbu_key_def cp_key_def m_key_def)

lemma send_message_changes_store:
  "fst (send_message empty_session (UUID 7) 500
          \<lparr>mc_conversation_id = 1, mc_sender_id = 1, mc_receiver_id = 2, mc_content = ''hi''\<rparr>)
   \<noteq> empty_session"
proof -
  have "sent_session \<noteq> empty_session"
    by (simp add: sent_session_def empty_session_def)
  then show ?thesis
    by (simp add: send_message_example)
qed

lemma rows_under_keys:
  assumes d: "distinct (map key tbl)" and a: "a \<in> set tbl" and b: "b \<in> set tbl"
  shows "set (filter (\<lambda>r. key r = key a \<or> key r = key b) tbl) = {a, b}"
    and "length (filter (\<lambda>r. key r = key a \<or> key r = key b) tbl) = (if a = b then 1 else 2)"
proof -
  let ?rows = "filter (\<lambda>r. key r = key a \<or> key r = key b) tbl"
  show s: "set ?rows = {a, b}"
    by (rule rows_with_keys [OF d a b])
  have "distinct tbl"
    using d by (simp add: distinct_map)
  then have "distinct ?rows"
    by simp
  then have "length ?rows = card (set ?rows)"
    by (rule distinct_card [symmetric])
  also have "\<dots> = (if a = b then 1 else 2)"
    unfolding s by (simp add: card_insert_if)
  finally show "length ?rows = (if a = b then 1 else 2)" .
qed

lemma send_message_example_reply:
  "send_message example_session (UUID 9) 500
     \<lparr>mc_conversation_id = 10, mc_sender_id = 2, mc_receiver_id = 1, mc_content = ''re''\<rparr>
   = (example_session
        \<lparr>conversations_by_user :=
           [\<lparr>cbu_user_id = 1, cbu_conversation_id = 10, cbu_participant_id = 2,
             cbu_last_updated = 500\<rparr>,
            \<lparr>cbu_user_id = 2, cbu_conversation_id = 10, cbu_participant_id = 1,
             cbu_last_updated = 500\<rparr>,
            \<lparr>cbu_user_id = 1, cbu_conversation_id = 11, cbu_participant_id = 3,
             cbu_last_updated = 200\<rparr>,
            \<lparr>cbu_user_id = 1, cbu_conversation_id = 12, cbu_participant_id = 4,
             cbu_last_updated = 300\<rparr>],
         messages_by_conversation :=
           [\<lparr>m_conversation_id = 10, m_message_id = UUID 1, m_sender_id = 1,
             m_content = ''hi'', m_timestamp = 100\<rparr>,
            \<lparr>m_conversation_id = 10, m_message_id = UUID 2, m_sender_id = 2,
             m_content = ''yo'', m_timestamp = 150\<rparr>,
            \<lparr>m_conversation_id = 10, m_message_id = UUID 3, m_sender_id = 1,
             m_content = ''ok'', m_timestamp = 200\<rparr>,
            \<lparr>m_conversation_id = 10, m_message_id = UUID 9, m_sender_id = 2,
             m_content = ''re'', m_timestamp = 500\<rparr>]\<rparr>,
      Inr \<lparr>mr_message_id = UUID 9, mr_conversation_id = 10, mr_sender_id = 2,
           mr_content = ''re'', mr_timestamp = 500\<rparr>)"
  by (simp add: send_message_def execute_insert_message_def execute_insert_participant_def
      execute_insert_conversation_by_user_def example_session_def no_fault_def
      upsert_def cbu_key_def cp_key_def m_key_def)

lemma example_keys: "distinct (map cbu_key (conversations_by_user example_session))"
  by (simp add: example_session_def cbu_key_def)

section \<open>The claims\<close>

text \<open>
  C1. The claim: a conversation whose participant lookup returns no row makes
  \<open>get_conversation\<close> fail with the 404 not-found signal. The code raises that
  \<open>HTTPException(404)\<close> inside its own \<open>try\<close>, whose \<open>except Exception\<close> catches it and
  raises the generic 500 in its place: on the empty store, conversation 7 ends in the
  500 whose detail is the string of the 404.
\<close>

theorem get_conversation_not_found_raises_500:
  "snd (get_conversation empty_session 7) =
     Inl (HTTPException 500 (StrOf (HTTPException 404 (Detail ''Conversation not found''))))"
  by (simp add: get_conversation_Inr [OF empty_participants])

text \<open>
  C8. When the participant lookup returns a non-empty sequence of rows,
  \<open>get_conversation\<close> returns the conversation id it was given, the participant of the
  first row in the order the store returned them, and no last-updated value.
\<close>

theorem get_conversation_first_participant:
  assumes "execute_select_conversation_participants s c = (s', Inr rows)" and "rows \<noteq> []"
  shows "get_conversation s c =
           (s', Inr \<lparr>cr_conversation_id = c,
                     cr_participant_id = cp_participant_id (hd rows),
                     cr_last_updated = None\<rparr>)"
  using assms by (simp add: get_conversation_Inr)

theorem get_conversation_first_participant_witness:
  "execute_select_conversation_participants example_session 10 =
     (example_session,
      Inr [\<lparr>cp_conversation_id = 10, cp_participant_id = 2\<rparr>,
           \<lparr>cp_conversation_id = 10, cp_participant_id = 1\<rparr>])
   \<and> get_conversation example_session 10 =
     (example_session,
      Inr \<lparr>cr_conversation_id = 10, cr_participant_id = 2, cr_last_updated = None\<rparr>)"
  using get_conversation_first_participant [OF example_participants_10]
  by (simp add: example_participants_10)

text \<open>
  C10. Each of the four read operations returns the session it was given, tables and
  all, whether the read succeeds or the driver raises: none of them issues an INSERT.
  \<open>send_message\<close> does change the tables (here on the empty store).
\<close>

theorem reads_leave_session_unchanged:
  "fst (get_user_conversations s user_id page limit) = s
   \<and> fst (get_conversation s conversation_id) = s
   \<and> fst (get_conversation_messages s conversation_id page limit) = s
   \<and> fst (get_messages_before_timestamp s conversation_id before_timestamp page limit) = s
   \<and> fst (send_message empty_session (UUID 7) 500
             \<lparr>mc_conversation_id = 1, mc_sender_id = 1, mc_receiver_id = 2,
              mc_content = ''hi''\<rparr>) \<noteq> empty_session"
  by (simp add: send_message_changes_store get_user_conversations_fst get_conversation_fst get_conversation_messages_fst
      get_messages_before_timestamp_fst execute_select_conversations_by_user_fst
      execute_select_conversation_participants_fst execute_select_messages_fst
      execute_select_messages_before_fst)

text \<open>
  C2. For \<open>page > 0\<close> and \<open>limit > 0\<close>, each paginated read whose SELECT returns rows
  returns exactly the rows \<open>[(page-1)*limit, (page-1)*limit+limit)\<close> of that result
  sequence (shorter when the sequence ends first), so never more than \<open>limit\<close> items.
\<close>

theorem paginated_reads_return_window:
  assumes "0 < page" and "0 < limit"
  shows "(execute_select_conversations_by_user s user_id = (s1, Inr crows) \<longrightarrow>
            (\<exists>resp. snd (get_user_conversations s user_id page limit) = Inr resp
               \<and> pc_conversations resp =
                   map conversation_of_row
                     (take (nat limit) (drop (nat ((page - 1) * limit)) crows))
               \<and> int (length (pc_conversations resp)) \<le> limit))
       \<and> (execute_select_messages s conversation_id ((page - 1) * limit + limit)
            = (s2, Inr mrows) \<longrightarrow>
            (\<exists>resp. snd (get_conversation_messages s conversation_id page limit) = Inr resp
               \<and> pm_messages resp =
                   map (message_of_row conversation_id)
                     (take (nat limit) (drop (nat ((page - 1) * limit)) mrows))
               \<and> int (length (pm_messages resp)) \<le> limit))
       \<and> (execute_select_messages_before s conversation_id before_timestamp
              ((page - 1) * limit + limit) = (s3, Inr brows) \<longrightarrow>
            (\<exists>resp. snd (get_messages_before_timestamp s conversation_id before_timestamp
                            page limit) = Inr resp
               \<and> pm_messages resp =
                   map (message_of_row conversation_id)
                     (take (nat limit) (drop (nat ((page - 1) * limit)) brows))
               \<and> int (length (pm_messages resp)) \<le> limit))"
  using paginated_conversations_window [OF assms]
    paginated_messages_window [OF assms]
    paginated_messages_before_window [OF assms]
  by blast

theorem paginated_reads_return_window_witness:
  "(0::int) < 2
   \<and> execute_select_conversations_by_user example_session 1 =
       (example_session,
        Inr [\<lparr>cbu_user_id = 1, cbu_conversation_id = 10, cbu_participant_id = 2,
              cbu_last_updated = 100\<rparr>,
             \<lparr>cbu_user_id = 1, cbu_conversation_id = 11, cbu_participant_id = 3,
              cbu_last_updated = 200\<rparr>,
             \<lparr>cbu_user_id = 1, cbu_conversation_id = 12, cbu_participant_id = 4,
              cbu_last_updated = 300\<rparr>])
   \<and> (\<exists>resp. snd (get_user_conversations example_session 1 2 2) = Inr resp
          \<and> pc_conversations resp =
              [\<lparr>cr_conversation_id = 12, cr_participant_id = 4, cr_last_updated = Some 300\<rparr>]
          \<and> int (length (pc_conversations resp)) \<le> 2)
   \<and> (\<exists>resp. snd (get_conversation_messages example_session 10 2 2) = Inr resp
          \<and> pm_messages resp =
              [\<lparr>mr_message_id = UUID 3, mr_conversation_id = 10, mr_sender_id = 1,
                mr_content = ''ok'', mr_timestamp = 200\<rparr>]
          \<and> int (length (pm_messages resp)) \<le> 2)
   \<and> (\<exists>resp. snd (get_messages_before_timestamp example_session 10 200 2 2) = Inr resp
          \<and> pm_messages resp = []
          \<and> int (length (pm_messages resp)) \<le> 2)"
  using paginated_reads_return_window
    [where page = 2 and limit = 2 and s = example_session and user_id = 1
       and conversation_id = 10 and before_timestamp = 200
       and ?s1.0 = example_session and ?s2.0 = example_session and ?s3.0 = example_session
       and crows = "[\<lparr>cbu_user_id = 1, cbu_conversation_id = 10, cbu_participant_id = 2,
              cbu_last_updated = 100\<rparr>,
             \<lparr>cbu_user_id = 1, cbu_conversation_id = 11, cbu_participant_id = 3,
              cbu_last_updated = 200\<rparr>,
             \<lparr>cbu_user_id = 1, cbu_conversation_id = 12, cbu_participant_id = 4,
              cbu_last_updated = 300\<rparr>]"
       and mrows = "take (nat 4) (messages_of example_session 10)"
       and brows = "take (nat 4) (filter (\<lambda>r. m_timestamp r < 200) (messages_of example_session 10))"]
  by (simp add: example_conversations_1 example_messages_10 example_messages_before_10
      example_messages_of_10 conversation_of_row_def message_of_row_def)

text \<open>
  C3. In every successful paginated read, \<open>has_more\<close> is true exactly when the number
  of returned items equals \<open>limit\<close>. It holds for every \<open>page\<close> and \<open>limit\<close>. The witness
  shows the false positive: the three conversations of user 1 and the three messages of
  conversation 10 fill a page of three, nothing remains, and \<open>has_more\<close> is true.
\<close>

theorem has_more_iff_count_equals_limit:
  "(snd (get_user_conversations s user_id page limit) = Inr cresp \<longrightarrow>
      pc_has_more cresp = (int (length (pc_conversations cresp)) = limit))
   \<and> (snd (get_conversation_messages s conversation_id page limit) = Inr mresp \<longrightarrow>
      pm_has_more mresp = (int (length (pm_messages mresp)) = limit))
   \<and> (snd (get_messages_before_timestamp s conversation_id before_timestamp page limit)
        = Inr bresp \<longrightarrow>
      pm_has_more bresp = (int (length (pm_messages bresp)) = limit))"
  using conversations_has_more messages_has_more messages_before_has_more
  by blast

theorem has_more_iff_count_equals_limit_witness:
  "snd (get_user_conversations example_session 1 1 3) =
     Inr \<lparr>pc_conversations =
            [\<lparr>cr_conversation_id = 10, cr_participant_id = 2, cr_last_updated = Some 100\<rparr>,
             \<lparr>cr_conversation_id = 11, cr_participant_id = 3, cr_last_updated = Some 200\<rparr>,
             \<lparr>cr_conversation_id = 12, cr_participant_id = 4, cr_last_updated = Some 300\<rparr>],
          pc_page = 1, pc_limit = 3, pc_has_more = True\<rparr>
   \<and> snd (get_conversation_messages example_session 10 1 3) =
     Inr \<lparr>pm_messages =
            [\<lparr>mr_message_id = UUID 1, mr_conversation_id = 10, mr_sender_id = 1,
              mr_content = ''hi'', mr_timestamp = 100\<rparr>,
             \<lparr>mr_message_id = UUID 2, mr_conversation_id = 10, mr_sender_id = 2,
              mr_content = ''yo'', mr_timestamp = 150\<rparr>,
             \<lparr>mr_message_id = UUID 3, mr_conversation_id = 10, mr_sender_id = 1,
              mr_content = ''ok'', mr_timestamp = 200\<rparr>],
          pm_page = 1, pm_limit = 3, pm_has_more = True\<rparr>
   \<and> snd (get_messages_before_timestamp example_session 10 200 1 3) =
     Inr \<lparr>pm_messages =
            [\<lparr>mr_message_id = UUID 1, mr_conversation_id = 10, mr_sender_id = 1,
              mr_content = ''hi'', mr_timestamp = 100\<rparr>,
             \<lparr>mr_message_id = UUID 2, mr_conversation_id = 10, mr_sender_id = 2,
              mr_content = ''yo'', mr_timestamp = 150\<rparr>],
          pm_page = 1, pm_limit = 3, pm_has_more = False\<rparr>"
  using has_more_iff_count_equals_limit
    [where s = example_session and user_id = 1 and conversation_id = 10
       and before_timestamp = 200 and page = 1 and limit = 3]
  by (simp add: get_user_conversations_Inr [OF example_conversations_1]
      get_conversation_messages_Inr [OF example_messages_10]
      get_messages_before_timestamp_Inr [OF example_messages_before_10]
      example_messages_of_10 py_slice_def slice_index_def
      conversation_of_row_def message_of_row_def)

text \<open>
  C4, as amended. After a successful \<open>send_message\<close> on a table with one row per
  (user, conversation) key, the rows under the keys (sender, conversation) and
  (receiver, conversation) are exactly the row of the sender pointing at the receiver
  and the row of the receiver pointing at the sender, both with the timestamp of the
  message as \<open>last_updated\<close>: two rows when sender and receiver differ, one row when
  they are the same user.
\<close>

theorem send_message_fan_out:
  assumes sent: "send_message s message_id timestamp message_data = (s', Inr resp)"
    and keys: "distinct (map cbu_key (conversations_by_user s))"
  shows "set (filter (\<lambda>r. cbu_key r = (mc_sender_id message_data, mc_conversation_id message_data)
                        \<or> cbu_key r = (mc_receiver_id message_data,
                                         mc_conversation_id message_data))
               (conversations_by_user s'))
         = {\<lparr>cbu_user_id = mc_sender_id message_data,
             cbu_conversation_id = mc_conversation_id message_data,
             cbu_participant_id = mc_receiver_id message_data,
             cbu_last_updated = timestamp\<rparr>,
            \<lparr>cbu_user_id = mc_receiver_id message_data,
             cbu_conversation_id = mc_conversation_id message_data,
             cbu_participant_id = mc_sender_id message_data,
             cbu_last_updated = timestamp\<rparr>}
       \<and> length (filter (\<lambda>r. cbu_key r = (mc_sender_id message_data,
                                            mc_conversation_id message_data)
                        \<or> cbu_key r = (mc_receiver_id message_data,
                                         mc_conversation_id message_data))
               (conversations_by_user s'))
         = (if mc_sender_id message_data = mc_receiver_id message_data then 1 else 2)
       \<and> mr_timestamp resp = timestamp"
proof -
  let ?a = "\<lparr>cbu_user_id = mc_sender_id message_data,
             cbu_conversation_id = mc_conversation_id message_data,
             cbu_participant_id = mc_receiver_id message_data,
             cbu_last_updated = timestamp\<rparr>"
  let ?b = "\<lparr>cbu_user_id = mc_receiver_id message_data,
             cbu_conversation_id = mc_conversation_id message_data,
             cbu_participant_id = mc_sender_id message_data,
             cbu_last_updated = timestamp\<rparr>"
  let ?tbl = "conversations_by_user s'"
  obtain s1 s2 where
    e1: "execute_insert_message s
           \<lparr>m_conversation_id = mc_conversation_id message_data, m_message_id = message_id,
            m_sender_id = mc_sender_id message_data, m_content = mc_content message_data,
            m_timestamp = timestamp\<rparr> = (s1, Inr ())"
    and e2: "insert_participants s1 (mc_conversation_id message_data)
               [mc_sender_id message_data, mc_receiver_id message_data] = (s2, Inr ())"
    and e3: "insert_conversation_metadata s2 message_data timestamp
               [mc_sender_id message_data, mc_receiver_id message_data] = (s', Inr ())"
    and r: "resp = \<lparr>mr_message_id = message_id,
                     mr_conversation_id = mc_conversation_id message_data,
                     mr_sender_id = mc_sender_id message_data,
                     mr_content = mc_content message_data,
                     mr_timestamp = timestamp\<rparr>"
    using send_message_Inr_steps [OF sent] by blast
  have t1: "conversations_by_user s1 = conversations_by_user s"
    using e1 by (auto dest: execute_insert_message_Inr)
  have t2: "conversations_by_user s2 = conversations_by_user s1"
    using e2 by (rule insert_participants_frame)
  have "?tbl = upsert cbu_key
                 \<lparr>cbu_user_id = mc_receiver_id message_data,
                  cbu_conversation_id = mc_conversation_id message_data,
                  cbu_participant_id =
                    (if mc_receiver_id message_data = mc_sender_id message_data
                     then mc_receiver_id message_data else mc_sender_id message_data),
                  cbu_last_updated = timestamp\<rparr>
                 (upsert cbu_key
                    \<lparr>cbu_user_id = mc_sender_id message_data,
                     cbu_conversation_id = mc_conversation_id message_data,
                     cbu_participant_id =
                       (if mc_sender_id message_data = mc_sender_id message_data
                        then mc_receiver_id message_data else mc_sender_id message_data),
                     cbu_last_updated = timestamp\<rparr>
                    (conversations_by_user s2))"
    by (rule insert_conversation_metadata_pair [OF e3])
  moreover have "(if mc_receiver_id message_data = mc_sender_id message_data
                  then mc_receiver_id message_data else mc_sender_id message_data)
                 = mc_sender_id message_data"
    by simp
  ultimately have tbl: "?tbl = upsert cbu_key ?b (upsert cbu_key ?a (conversations_by_user s))"
    by (simp only: t1 t2 if_True refl)
  have d: "distinct (map cbu_key ?tbl)"
    unfolding tbl by (intro distinct_upsert keys)
  have b: "?b \<in> set ?tbl"
    unfolding tbl by (rule upsert_mem)
  have a: "?a \<in> set ?tbl"
  proof (cases "mc_sender_id message_data = mc_receiver_id message_data")
    case True
    from b show ?thesis
      unfolding True by assumption
  next
    case False
    then have "cbu_key ?a \<noteq> cbu_key ?b"
      by (simp add: cbu_key_def)
    then show ?thesis
      unfolding tbl by (intro upsert_keeps_other upsert_mem)
  qed
  have ka: "cbu_key ?a = (mc_sender_id message_data, mc_conversation_id message_data)"
    and kb: "cbu_key ?b = (mc_receiver_id message_data, mc_conversation_id message_data)"
    by (simp_all add: cbu_key_def)
  have eq: "(?a = ?b) = (mc_sender_id message_data = mc_receiver_id message_data)"
    by auto
  from rows_under_keys [OF d a b] show ?thesis
    unfolding ka kb eq by (simp add: r)
qed

theorem send_message_fan_out_witness:
  "distinct (map cbu_key (conversations_by_user example_session))
   \<and> snd (send_message example_session (UUID 9) 500
            \<lparr>mc_conversation_id = 10, mc_sender_id = 2, mc_receiver_id = 1,
             mc_content = ''re''\<rparr>)
     = Inr \<lparr>mr_message_id = UUID 9, mr_conversation_id = 10, mr_sender_id = 2,
            mr_content = ''re'', mr_timestamp = 500\<rparr>
   \<and> set (filter (\<lambda>r. cbu_key r = (2, 10) \<or> cbu_key r = (1, 10))
            (conversations_by_user
               (fst (send_message example_session (UUID 9) 500
                       \<lparr>mc_conversation_id = 10, mc_sender_id = 2, mc_receiver_id = 1,
                        mc_content = ''re''\<rparr>))))
     = {\<lparr>cbu_user_id = 2, cbu_conversation_id = 10, cbu_participant_id = 1,
         cbu_last_updated = 500\<rparr>,
        \<lparr>cbu_user_id = 1, cbu_conversation_id = 10, cbu_participant_id = 2,
         cbu_last_updated = 500\<rparr>}
   \<and> length (filter (\<lambda>r. cbu_key r = (2, 10) \<or> cbu_key r = (1, 10))
            (conversations_by_user
               (fst (send_message example_session (UUID 9) 500
                       \<lparr>mc_conversation_id = 10, mc_sender_id = 2, mc_receiver_id = 1,
                        mc_content = ''re''\<rparr>))))
     = 2"
  using send_message_fan_out [OF send_message_example_reply example_keys]
  by (simp add: send_message_example_reply example_keys)

text \<open>
  C4 as stated, with exactly two rows for every send, fails when a user writes to
  themselves: both upserts address the key (1, 1) and the table holds a single row.
\<close>

theorem send_message_to_self_leaves_one_row:
  "snd (send_message empty_session (UUID 7) 500
          \<lparr>mc_conversation_id = 1, mc_sender_id = 1, mc_receiver_id = 1, mc_content = ''hi''\<rparr>)
     = Inr \<lparr>mr_message_id = UUID 7, mr_conversation_id = 1, mr_sender_id = 1,
            mr_content = ''hi'', mr_timestamp = 500\<rparr>
   \<and> conversations_by_user
       (fst (send_message empty_session (UUID 7) 500
               \<lparr>mc_conversation_id = 1, mc_sender_id = 1, mc_receiver_id = 1,
                mc_content = ''hi''\<rparr>))
     = [\<lparr>cbu_user_id = 1, cbu_conversation_id = 1, cbu_participant_id = 1,
         cbu_last_updated = 500\<rparr>]
   \<and> length (conversations_by_user
       (fst (send_message empty_session (UUID 7) 500
               \<lparr>mc_conversation_id = 1, mc_sender_id = 1, mc_receiver_id = 1,
                mc_content = ''hi''\<rparr>)))
     \<noteq> 2"
  by (simp add: send_message_def execute_insert_message_def execute_insert_participant_def
      execute_insert_conversation_by_user_def empty_session_def no_fault_def
      upsert_def cbu_key_def cp_key_def m_key_def)

text \<open>
  C5. For \<open>page > 0\<close> and \<open>limit > 0\<close>, when the windowed SELECT does not fail,
  \<open>get_conversation_messages\<close>, which reads only the first \<open>(page-1)*limit + limit\<close> rows,
  returns the page that scanning all rows of the conversation and slicing would return.
\<close>

theorem windowed_read_equals_unbounded_scan:
  assumes "0 < page" and "0 < limit"
    and "fault s (SELECT_messages_by_conversation conversation_id ((page - 1) * limit + limit))
           = None"
  shows "snd (get_conversation_messages s conversation_id page limit) =
           Inr (unbounded_scan_page s conversation_id page limit)"
proof -
  let ?o = "(page - 1) * limit"
  have o: "0 \<le> ?o" and l: "0 \<le> limit"
    using assms by simp_all
  have e: "execute_select_messages s conversation_id (?o + limit) =
             (s, Inr (take (nat (?o + limit)) (messages_of s conversation_id)))"
    using assms(3) by (simp add: execute_select_messages_def)
  show ?thesis
    by (simp add: get_conversation_messages_Inr [OF e] unbounded_scan_page_def Let_def
        py_slice_of_prefix [OF o l])
qed

theorem windowed_read_equals_unbounded_scan_witness:
  "(0::int) < 2
   \<and> fault example_session (SELECT_messages_by_conversation 10 ((2 - 1) * 2 + 2)) = None
   \<and> snd (get_conversation_messages example_session 10 2 2) =
       Inr (unbounded_scan_page example_session 10 2 2)
   \<and> pm_messages (unbounded_scan_page example_session 10 2 2) =
       [\<lparr>mr_message_id = UUID 3, mr_conversation_id = 10, mr_sender_id = 1,
         mr_content = ''ok'', mr_timestamp = 200\<rparr>]"
  using windowed_read_equals_unbounded_scan
    [where page = 2 and limit = 2 and s = example_session and conversation_id = 10]
  by (simp add: example_fault unbounded_scan_page_def example_messages_of_10
      py_slice_def slice_index_def message_of_row_def)

text \<open>
  C6. Every message in a page returned by \<open>get_messages_before_timestamp\<close> has a
  timestamp strictly below \<open>before_timestamp\<close>, for every \<open>page\<close> and \<open>limit\<close>.
\<close>

theorem messages_before_timestamp_are_earlier:
  assumes "snd (get_messages_before_timestamp s conversation_id before_timestamp page limit)
             = Inr resp"
    and "m \<in> set (pm_messages resp)"
  shows "mr_timestamp m < before_timestamp"
proof -
  let ?o = "(page - 1) * limit"
  obtain s' rows where e:
    "execute_select_messages_before s conversation_id before_timestamp (?o + limit)
       = (s', Inr rows)"
    using snd_get_messages_before_timestamp_Inr [OF assms(1)] by blast
  have "pm_messages resp = map (message_of_row conversation_id) (py_slice rows ?o (?o + limit))"
    using assms(1) by (auto simp: get_messages_before_timestamp_Inr [OF e])
  with assms(2) obtain r where r: "r \<in> set (py_slice rows ?o (?o + limit))"
    and m: "m = message_of_row conversation_id r"
    by auto
  from r have "r \<in> set rows"
    by (rule subsetD [OF set_py_slice])
  then have "m_timestamp r < before_timestamp"
    by (rule messages_before_rows [OF e])
  with m show ?thesis
    by (simp add: message_of_row_def)
qed

theorem messages_before_timestamp_are_earlier_witness:
  "snd (get_messages_before_timestamp example_session 10 200 1 2) =
     Inr \<lparr>pm_messages =
            [\<lparr>mr_message_id = UUID 1, mr_conversation_id = 10, mr_sender_id = 1,
              mr_content = ''hi'', mr_timestamp = 100\<rparr>,
             \<lparr>mr_message_id = UUID 2, mr_conversation_id = 10, mr_sender_id = 2,
              mr_content = ''yo'', mr_timestamp = 150\<rparr>],
          pm_page = 1, pm_limit = 2, pm_has_more = True\<rparr>
   \<and> mr_timestamp \<lparr>mr_message_id = UUID 2, mr_conversation_id = 10, mr_sender_id = 2,
                    mr_content = ''yo'', mr_timestamp = 150\<rparr> < 200"
proof -
  let ?m1 = "\<lparr>mr_message_id = UUID 1, mr_conversation_id = 10, mr_sender_id = 1,
              mr_content = ''hi'', mr_timestamp = 100\<rparr>"
  let ?m2 = "\<lparr>mr_message_id = UUID 2, mr_conversation_id = 10, mr_sender_id = 2,
              mr_content = ''yo'', mr_timestamp = 150\<rparr>"
  let ?resp = "\<lparr>pm_messages = [?m1, ?m2], pm_page = 1, pm_limit = 2, pm_has_more = True\<rparr>"
  have run: "snd (get_messages_before_timestamp example_session 10 200 1 2) = Inr ?resp"
    by (simp add: get_messages_before_timestamp_Inr [OF example_messages_before_10]
        example_messages_of_10 py_slice_def slice_index_def message_of_row_def)
  have mem: "?m2 \<in> set (pm_messages ?resp)"
    by simp
  from run messages_before_timestamp_are_earlier [OF run mem] show ?thesis
    by blast
qed

text \<open>
  C7. A successful \<open>send_message\<close> returns the message built from the values it
  computed itself: the generated message id, the timestamp it assigned, and the
  conversation id, sender id and content of its input. Nothing in it comes from the store.
\<close>

theorem send_message_returns_local_values:
  assumes "send_message s message_id timestamp message_data = (s', Inr resp)"
  shows "resp = \<lparr>mr_message_id = message_id,
                  mr_conversation_id = mc_conversation_id message_data,
                  mr_sender_id = mc_sender_id message_data,
                  mr_content = mc_content message_data,
                  mr_timestamp = timestamp\<rparr>"
  using send_message_Inr_steps [OF assms] by blast

theorem send_message_returns_local_values_witness:
  "send_message empty_session (UUID 7) 500
     \<lparr>mc_conversation_id = 1, mc_sender_id = 1, mc_receiver_id = 2, mc_content = ''hi''\<rparr>
   = (sent_session,
      Inr \<lparr>mr_message_id = UUID 7, mr_conversation_id = 1, mr_sender_id = 1,
           mr_content = ''hi'', mr_timestamp = 500\<rparr>)"
  using send_message_returns_local_values [OF send_message_example]
  by (simp add: send_message_example)

text \<open>
  C9. No paginated read looks at the sign of \<open>page\<close> or \<open>limit\<close>: for all integers,
  whenever the SELECT returns rows the read succeeds, and its items are Python's slice
  \<open>rows[offset:offset + limit]\<close> with \<open>offset = (page - 1) * limit\<close>, negative bounds
  counting from the end. The witness has \<open>page = -1, limit = 1\<close> (offset \<open>-2\<close>, the
  slice \<open>[-2:-1]\<close>, the second conversation of three) and \<open>page = -1, limit = -2\<close>.
\<close>

theorem pagination_parameters_not_validated:
  "(execute_select_conversations_by_user s user_id = (s1, Inr crows) \<longrightarrow>
      get_user_conversations s user_id page limit =
        (s1, Inr \<lparr>pc_conversations =
                    map conversation_of_row
                      (py_slice crows ((page - 1) * limit) ((page - 1) * limit + limit)),
                  pc_page = page, pc_limit = limit,
                  pc_has_more =
                    (int (length (py_slice crows ((page - 1) * limit)
                                    ((page - 1) * limit + limit))) = limit)\<rparr>))
   \<and> (execute_select_messages s conversation_id ((page - 1) * limit + limit)
        = (s2, Inr mrows) \<longrightarrow>
      get_conversation_messages s conversation_id page limit =
        (s2, Inr \<lparr>pm_messages =
                    map (message_of_row conversation_id)
                      (py_slice mrows ((page - 1) * limit) ((page - 1) * limit + limit)),
                  pm_page = page, pm_limit = limit,
                  pm_has_more =
                    (int (length (py_slice mrows ((page - 1) * limit)
                                    ((page - 1) * limit + limit))) = limit)\<rparr>))
   \<and> (execute_select_messages_before s conversation_id before_timestamp
          ((page - 1) * limit + limit) = (s3, Inr brows) \<longrightarrow>
      get_messages_before_timestamp s conversation_id before_timestamp page limit =
        (s3, Inr \<lparr>pm_messages =
                    map (message_of_row conversation_id)
                      (py_slice brows ((page - 1) * limit) ((page - 1) * limit + limit)),
                  pm_page = page, pm_limit = limit,
                  pm_has_more =
                    (int (length (py_slice brows ((page - 1) * limit)
                                    ((page - 1) * limit + limit))) = limit)\<rparr>))"
  using get_user_conversations_Inr get_conversation_messages_Inr
    get_messages_before_timestamp_Inr
  by blast

theorem pagination_parameters_not_validated_witness:
  "execute_select_conversations_by_user example_session 1 =
     (example_session,
      Inr [\<lparr>cbu_user_id = 1, cbu_conversation_id = 10, cbu_participant_id = 2,
            cbu_last_updated = 100\<rparr>,
           \<lparr>cbu_user_id = 1, cbu_conversation_id = 11, cbu_participant_id = 3,
            cbu_last_updated = 200\<rparr>,
           \<lparr>cbu_user_id = 1, cbu_conversation_id = 12, cbu_participant_id = 4,
            cbu_last_updated = 300\<rparr>])
   \<and> get_user_conversations example_session 1 (- 1) 1 =
     (example_session,
      Inr \<lparr>pc_conversations =
             [\<lparr>cr_conversation_id = 11, cr_participant_id = 3, cr_last_updated = Some 200\<rparr>],
           pc_page = - 1, pc_limit = 1, pc_has_more = True\<rparr>)
   \<and> get_user_conversations example_session 1 (- 1) (- 2) =
     (example_session,
      Inr \<lparr>pc_conversations = [], pc_page = - 1, pc_limit = - 2, pc_has_more = False\<rparr>)
   \<and> get_conversation_messages example_session 10 (- 1) (- 2) =
     (example_session,
      Inr \<lparr>pm_messages = [], pm_page = - 1, pm_limit = - 2, pm_has_more = False\<rparr>)
   \<and> get_messages_before_timestamp example_session 10 200 (- 1) (- 2) =
     (example_session,
      Inr \<lparr>pm_messages = [], pm_page = - 1, pm_limit = - 2, pm_has_more = False\<rparr>)"
  using pagination_parameters_not_validated
    [where s = example_session and user_id = 1 and page = "- 1" and limit = 1
       and ?s1.0 = example_session
       and crows = "[\<lparr>cbu_user_id = 1, cbu_conversation_id = 10, cbu_participant_id = 2,
            cbu_last_updated = 100\<rparr>,
           \<lparr>cbu_user_id = 1, cbu_conversation_id = 11, cbu_participant_id = 3,
            cbu_last_updated = 200\<rparr>,
           \<lparr>cbu_user_id = 1, cbu_conversation_id = 12, cbu_participant_id = 4,
            cbu_last_updated = 300\<rparr>]"]
    pagination_parameters_not_validated
    [where s = example_session and user_id = 1 and conversation_id = 10
       and before_timestamp = 200 and page = "- 1" and limit = "- 2"
       and ?s1.0 = example_session and ?s2.0 = example_session and ?s3.0 = example_session
       and crows = "[\<lparr>cbu_user_id = 1, cbu_conversation_id = 10, cbu_participant_id = 2,
            cbu_last_updated = 100\<rparr>,
           \<lparr>cbu_user_id = 1, cbu_conversation_id = 11, cbu_participant_id = 3,
            cbu_last_updated = 200\<rparr>,
           \<lparr>cbu_user_id = 1, cbu_conversation_id = 12, cbu_participant_id = 4,
            cbu_last_updated = 300\<rparr>]"
       and mrows = "take (nat 2) (messages_of example_session 10)"
       and brows = "take (nat 2) (filter (\<lambda>r. m_timestamp r < 200) (messages_of example_session 10))"]
  by (simp add: example_conversations_1 example_messages_10 example_messages_before_10
      example_messages_of_10 py_slice_def slice_index_def
      conversation_of_row_def message_of_row_def)

end
